theory Spec2Isabelle
  imports Main "HOL-Library.AList"
begin

section \<open>Token usage records and the usage-node tree\<close>

text \<open>
  Modelled from the spec: the classes \<open>TokenUsage\<close>, \<open>ModelInfo\<close> and \<open>TokenNode\<close> are
  declared in \<open>mcp_agent.tracing.token_counter\<close>, which is not among the sources. Section 3
  of the spec gives a usage record its input, output and total counts and an optional model
  and provider, and a node its name, its metadata (strings to strings), its own usage and its
  children in creation order; the fields below are the attributes the sources read, under
  the names they read them by. Python integers are unbounded, so a count is an \<open>int\<close>. The
  three counts are separate attributes: \<open>collect_model_usage\<close> reads \<open>total_tokens\<close> on its
  own.
\<close>

record ModelInfo =
  provider :: "string option"

record TokenUsage =
  input_tokens :: int
  output_tokens :: int
  total_tokens :: int
  model_name :: "string option"
  model_info :: "ModelInfo option"

datatype TokenNode =
  TokenNode (name: string) (metadata: "(string \<times> string) list")
            (usage: TokenUsage) (children: "TokenNode list")

section \<open>The model breakdown of \<open>get_workflow_token_usage\<close>\<close>

text \<open>
  \<open>model_usage\<close> is a Python dict keyed by the tuple \<open>(model_name, provider)\<close>; a dict
  keeps insertion order, so it is an association list in which \<open>AList.update\<close> appends a
  new key at the end and \<open>AList.map_entry\<close> changes the value of a key in place.
\<close>

type_synonym model_key = "string \<times> string option"

record model_entry =
  mu_model_name :: string
  mu_provider :: "string option"
  mu_input_tokens :: int
  mu_output_tokens :: int
  mu_total_tokens :: int

type_synonym model_usage = "(model_key \<times> model_entry) list"

text \<open>
  \<open>collect_model_usage\<close> (basic_agent_server.py, lines 259-286). The closure mutates the
  captured dict; here the dict is passed in and returned. \<open>if node.usage.model_name\<close> is
  Python truthiness: \<open>None\<close> and the empty string both skip the node. The three \<open>+=\<close>
  statements on the entry are one \<open>map_entry\<close> updating the three fields.
\<close>

fun collect_model_usage :: "TokenNode \<Rightarrow> model_usage \<Rightarrow> model_usage" where
  "collect_model_usage (TokenNode nm md u cs) model_usage =
     fold collect_model_usage cs
       (case model_name u of
          None \<Rightarrow> model_usage
        | Some mn \<Rightarrow>
            if mn = [] then model_usage
            else
              let prov = (case model_info u of None \<Rightarrow> None | Some mi \<Rightarrow> provider mi);
                  model_key = (mn, prov);
                  model_usage' =
                    (if map_of model_usage model_key = None
                     then AList.update model_key
                            \<lparr>mu_model_name = mn, mu_provider = prov, mu_input_tokens = 0,
                             mu_output_tokens = 0, mu_total_tokens = 0\<rparr> model_usage
                     else model_usage)
              in AList.map_entry model_key
                   (\<lambda>e. e\<lparr>mu_input_tokens := mu_input_tokens e + input_tokens u,
                           mu_output_tokens := mu_output_tokens e + output_tokens u,
                           mu_total_tokens := mu_total_tokens e + total_tokens u\<rparr>)
                   model_usage')"


text \<open>
  The nodes of a subtree in the order the traversal visits them (the node, then each child's
  subtree, left to right), the provider a usage record carries, and the record a dict entry
  starts from; these state the properties below and are not part of the program.
\<close>

fun nodes :: "TokenNode \<Rightarrow> TokenNode list" where
  "nodes (TokenNode nm md u cs) = TokenNode nm md u cs # concat (map nodes cs)"

definition usage_provider :: "TokenUsage \<Rightarrow> string option" where
  "usage_provider u = (case model_info u of None \<Rightarrow> None | Some mi \<Rightarrow> provider mi)"

definition carries :: "model_key \<Rightarrow> TokenUsage \<Rightarrow> bool" where
  "carries k u \<longleftrightarrow> model_name u = Some (fst k) \<and> usage_provider u = snd k"

definition usage_ok :: "TokenUsage \<Rightarrow> bool" where
  "usage_ok u \<longleftrightarrow> total_tokens u = input_tokens u + output_tokens u"

definition entry_ok :: "model_entry \<Rightarrow> bool" where
  "entry_ok e \<longleftrightarrow> mu_total_tokens e = mu_input_tokens e + mu_output_tokens e"

text \<open>What visiting one node does to the dict: the body of the \<open>if\<close> of \<open>collect_model_usage\<close>.\<close>

definition add_usage :: "TokenUsage \<Rightarrow> model_usage \<Rightarrow> model_usage" where
  "add_usage u model_usage =
     (case model_name u of
        None \<Rightarrow> model_usage
      | Some mn \<Rightarrow>
          if mn = [] then model_usage
          else
            let prov = (case model_info u of None \<Rightarrow> None | Some mi \<Rightarrow> provider mi);
                model_key = (mn, prov);
                model_usage' =
                  (if map_of model_usage model_key = None
                   then AList.update model_key
                          \<lparr>mu_model_name = mn, mu_provider = prov, mu_input_tokens = 0,
                           mu_output_tokens = 0, mu_total_tokens = 0\<rparr> model_usage
                   else model_usage)
            in AList.map_entry model_key
                 (\<lambda>e. e\<lparr>mu_input_tokens := mu_input_tokens e + input_tokens u,
                         mu_output_tokens := mu_output_tokens e + output_tokens u,
                         mu_total_tokens := mu_total_tokens e + total_tokens u\<rparr>)
                 model_usage')"

definition zero_entry :: "model_key \<Rightarrow> model_entry" where
  "zero_entry k = \<lparr>mu_model_name = fst k, mu_provider = snd k, mu_input_tokens = 0,
                  mu_output_tokens = 0, mu_total_tokens = 0\<rparr>"

definition add_sums :: "TokenUsage list \<Rightarrow> model_entry \<Rightarrow> model_entry" where
  "add_sums us e =
     e\<lparr>mu_input_tokens := mu_input_tokens e + sum_list (map input_tokens us),
       mu_output_tokens := mu_output_tokens e + sum_list (map output_tokens us),
       mu_total_tokens := mu_total_tokens e + sum_list (map total_tokens us)\<rparr>"

section \<open>The engine behind the query tool and the display\<close>

text \<open>
  Modelled from the spec: \<open>TokenNode.aggregate_usage\<close> lives in
  \<open>mcp_agent.tracing.token_counter\<close>, which is not among the sources. The spec (4.1):
  "recursively sums own_usage and aggregate_usage(child) for every child; pure function of
  tree state at call time". The sum of two usage records is taken field by field, the total
  included, as the equation of section 8 reads it; the result carries no model.
\<close>

definition usage_add :: "TokenUsage \<Rightarrow> TokenUsage \<Rightarrow> TokenUsage" where
  "usage_add a b =
     \<lparr>input_tokens = input_tokens a + input_tokens b,
      output_tokens = output_tokens a + output_tokens b,
      total_tokens = total_tokens a + total_tokens b,
      model_name = None, model_info = None\<rparr>"

fun aggregate_usage :: "TokenNode \<Rightarrow> TokenUsage" where
  "aggregate_usage (TokenNode nm md u cs) =
     fold (\<lambda>child total. usage_add total (aggregate_usage child)) cs
       \<lparr>input_tokens = input_tokens u, output_tokens = output_tokens u,
        total_tokens = total_tokens u, model_name = None, model_info = None\<rparr>"

text \<open>
  Modelled from the spec: the watch registry of \<open>TokenCounter\<close> (\<open>watch\<close>, \<open>unwatch\<close>), also
  in the missing module. The spec (4.3, 7): \<open>watch\<close> "registers immediately; no callback fires
  at registration time" and returns a subscription id; \<open>unwatch\<close> "removes the subscription",
  and for an unknown id "is a no-op, not an error". Subscription ids are numbered from a
  counter. The only callback the sources register is the display's bound method.
\<close>

datatype callback = OnTokenUpdate

record watch_entry =
  w_callback :: callback
  w_node :: TokenNode
  w_threshold :: int
  w_throttle_ms :: int

record TokenCounter =
  root :: "TokenNode option"
  watches :: "(nat \<times> watch_entry) list"
  next_watch_id :: nat

definition watch :: "callback \<Rightarrow> TokenNode \<Rightarrow> int \<Rightarrow> int \<Rightarrow> TokenCounter \<Rightarrow> nat \<times> TokenCounter" where
  "watch cb node threshold throttle_ms tc =
     (next_watch_id tc,
      tc\<lparr>watches := watches tc @
             [(next_watch_id tc,
               \<lparr>w_callback = cb, w_node = node, w_threshold = threshold,
                w_throttle_ms = throttle_ms\<rparr>)],
         next_watch_id := Suc (next_watch_id tc)\<rparr>)"

definition unwatch :: "nat \<Rightarrow> TokenCounter \<Rightarrow> TokenCounter" where
  "unwatch watch_id tc = tc\<lparr>watches := filter (\<lambda>w. fst w \<noteq> watch_id) (watches tc)\<rparr>"

text \<open>
  The other methods of the missing module that the sources call (\<open>get_workflow_node\<close>,
  \<open>_calculate_node_cost\<close>, \<open>calculate_cost\<close>, \<open>TokenNode.to_dict\<close>, \<open>get_summary\<close>) are
  parameters, and so are the two float operations of Python that the sources apply to a cost:
  \<open>round(x, ndigits)\<close> and the format spec \<open>.Nf\<close>. A cost is a Python float: its type is the
  type variable \<open>'c\<close>, so nothing is assumed about float arithmetic. \<open>pyval\<close> is the part of
  Python's values that the tool's result is made of.
\<close>

datatype 'c pyval =
  PNone | PInt int | PStr string | PFloat 'c | PDict "(string \<times> 'c pyval) list"

record 'c TokenSummary =
  summary_usage :: TokenUsage
  summary_cost :: 'c

record 'c engine =
  get_workflow_node ::
    "TokenCounter \<Rightarrow> string option \<Rightarrow> string option \<Rightarrow> string option \<Rightarrow> TokenNode option"
  calculate_node_cost :: "TokenCounter \<Rightarrow> TokenNode \<Rightarrow> 'c"
  calculate_cost :: "TokenCounter \<Rightarrow> string \<Rightarrow> int \<Rightarrow> int \<Rightarrow> string option \<Rightarrow> 'c"
  to_dict :: "TokenNode \<Rightarrow> 'c pyval"
  get_summary :: "TokenCounter \<Rightarrow> 'c TokenSummary"

record 'c pyfloat =
  py_round :: "'c \<Rightarrow> nat \<Rightarrow> 'c"
  py_format_f :: "nat \<Rightarrow> 'c \<Rightarrow> string"

section \<open>The query tool \<open>get_workflow_token_usage\<close>\<close>

text \<open>\<open>str(x)\<close> of an optional string inside an f-string, and \<open>dict.get\<close> on the metadata.\<close>

definition py_str :: "string option \<Rightarrow> string" where
  "py_str s = (case s of None \<Rightarrow> ''None'' | Some v \<Rightarrow> v)"

definition opt_val :: "string option \<Rightarrow> 'c pyval" where
  "opt_val s = (case s of None \<Rightarrow> PNone | Some v \<Rightarrow> PStr v)"

definition display_key :: "string \<Rightarrow> string option \<Rightarrow> string" where
  "display_key mn prov =
     (case prov of
        None \<Rightarrow> mn
      | Some p \<Rightarrow> if p = [] then mn else mn @ '' ('' @ p @ '')'')"

text \<open>
  \<open>get_workflow_token_usage\<close> (basic_agent_server.py, lines 210-304).
  \<open>context.token_counter\<close> is the optional first argument; the returned dict is a \<open>PDict\<close>
  with the keys in the order the source writes them.
\<close>

definition get_workflow_token_usage ::
  "'c engine \<Rightarrow> 'c pyfloat \<Rightarrow> TokenCounter option \<Rightarrow>
   string option \<Rightarrow> string option \<Rightarrow> string option \<Rightarrow> 'c pyval" where
  "get_workflow_token_usage eng fl token_counter workflow_id run_id workflow_name =
     (case token_counter of
        None \<Rightarrow>
          PDict [(''error'', PStr ''Token counter not available''),
                 (''message'', PStr ''Token tracking is not enabled for this application'')]
      | Some tc \<Rightarrow>
          (case get_workflow_node eng tc workflow_name workflow_id run_id of
             None \<Rightarrow>
               PDict [(''error'', PStr ''Workflow not found''),
                      (''message'',
                       PStr (''Could not find workflow with run_id='' @ [CHR 0x27] @
                             py_str run_id @ [CHR 0x27]))]
           | Some workflow_node \<Rightarrow>
               let workflow_usage = aggregate_usage workflow_node;
                   workflow_cost = calculate_node_cost eng tc workflow_node;
                   model_usage = collect_model_usage workflow_node [];
                   model_breakdown =
                     fold (\<lambda>((mn, prov), usage) breakdown.
                             let cost = calculate_cost eng tc mn (mu_input_tokens usage)
                                          (mu_output_tokens usage) prov
                             in AList.update (display_key mn prov)
                                  (PDict [(''model_name'', PStr (mu_model_name usage)),
                                          (''provider'', opt_val (mu_provider usage)),
                                          (''input_tokens'', PInt (mu_input_tokens usage)),
                                          (''output_tokens'', PInt (mu_output_tokens usage)),
                                          (''total_tokens'', PInt (mu_total_tokens usage)),
                                          (''cost'', PFloat (py_round fl cost 4))])
                                  breakdown)
                          model_usage []
               in PDict [(''workflow'',
                          PDict [(''name'', PStr (name workflow_node)),
                                 (''run_id'', opt_val (map_of (metadata workflow_node) ''run_id'')),
                                 (''workflow_id'',
                                  opt_val (map_of (metadata workflow_node) ''workflow_id''))]),
                         (''usage'',
                          PDict [(''input_tokens'', PInt (input_tokens workflow_usage)),
                                 (''output_tokens'', PInt (output_tokens workflow_usage)),
                                 (''total_tokens'', PInt (total_tokens workflow_usage))]),
                         (''cost'', PFloat (py_round fl workflow_cost 4)),
                         (''model_breakdown'', PDict model_breakdown),
                         (''usage_tree'', to_dict eng workflow_node)]))"

text \<open>Reading a key of a returned dict; a value that is not a dict has no keys.\<close>

definition field :: "string \<Rightarrow> 'c pyval \<Rightarrow> 'c pyval option" where
  "field k v = (case v of PDict kvs \<Rightarrow> map_of kvs k | _ \<Rightarrow> None)"


section \<open>The progress display \<open>TokenProgressDisplay\<close>\<close>

text \<open>
  \<open>rich.progress.Progress\<close> is a third-party widget; the part the display drives is a flag
  for the live rendering, the tasks in creation order and the index of the next task.
  \<open>start\<close> and \<open>stop\<close> set and clear the flag, \<open>add_task\<close> appends a visible task and returns
  its id, \<open>update\<close> looks the task up by id (a \<open>KeyError\<close> when there is none) and sets its
  fields.
\<close>

datatype py_error = KeyError

record Task =
  task_id :: nat
  visible :: bool
  node_info :: string
  tokens :: string
  cost :: string

record Progress =
  started :: bool
  tasks :: "Task list"
  task_index :: nat

definition progress_start :: "Progress \<Rightarrow> Progress" where
  "progress_start p = p\<lparr>started := True\<rparr>"

definition progress_stop :: "Progress \<Rightarrow> Progress" where
  "progress_stop p = p\<lparr>started := False\<rparr>"

definition add_task :: "string \<Rightarrow> string \<Rightarrow> string \<Rightarrow> Progress \<Rightarrow> nat \<times> Progress" where
  "add_task ni tk co p =
     (task_index p,
      p\<lparr>tasks := tasks p @
           [\<lparr>task_id = task_index p, visible = True, node_info = ni, tokens = tk, cost = co\<rparr>],
        task_index := Suc (task_index p)\<rparr>)"

definition progress_update_task ::
  "nat option \<Rightarrow> string \<Rightarrow> string \<Rightarrow> string \<Rightarrow> Progress \<Rightarrow> py_error + Progress" where
  "progress_update_task tid ni tk co p =
     (case tid of
        None \<Rightarrow> Inl KeyError
      | Some i \<Rightarrow>
          if i \<in> set (map task_id (tasks p))
          then Inr (p\<lparr>tasks := map (\<lambda>t. if task_id t = i
                                     then t\<lparr>node_info := ni, tokens := tk, cost := co\<rparr>
                                     else t) (tasks p)\<rparr>)
          else Inl KeyError)"

text \<open>
  The display object (token_progress_display.py). \<open>self.token_counter\<close> is a reference to the
  shared engine, so every method takes the engine's state and returns it; the third component
  of a result lists the calls the method made on the engine, in order.
\<close>

record TokenProgressDisplay =
  watch_ids :: "nat list"
  progress :: Progress
  paused_flag :: bool
  total_task_id :: "nat option"

datatype engine_call = Watch callback TokenNode int int | Unwatch nat

fun is_watch :: "engine_call \<Rightarrow> bool" where
  "is_watch (Watch cb n th ms) = True"
| "is_watch (Unwatch i) = False"

type_synonym display_step = "TokenProgressDisplay \<times> TokenCounter \<times> engine_call list"

text \<open>\<open>__init__\<close> (lines 14-32).\<close>

definition init :: TokenProgressDisplay where
  "init = \<lparr>watch_ids = [], progress = \<lparr>started = False, tasks = [], task_index = 0\<rparr>,
           paused_flag = False, total_task_id = None\<rparr>"

text \<open>
  \<open>start\<close> (lines 34-51). \<open>hasattr(self.token_counter, "_root") and self.token_counter._root\<close>
  holds exactly when the engine has a root node: \<open>root tc = None\<close> stands for a missing or
  empty attribute.
\<close>

definition start :: "TokenProgressDisplay \<Rightarrow> TokenCounter \<Rightarrow> display_step" where
  "start self tc =
     (let (tid, p) = add_task ''[bold]TOTAL'' ''0'' ''$0.0000'' (progress_start (progress self));
          self1 = self\<lparr>progress := p, total_task_id := Some tid\<rparr>
      in case root tc of
           None \<Rightarrow> (self1, tc, [])
         | Some r \<Rightarrow>
             let (watch_id, tc') = watch OnTokenUpdate r 1 100 tc
             in (self1\<lparr>watch_ids := watch_ids self1 @ [watch_id]\<rparr>, tc',
                 [Watch OnTokenUpdate r 1 100]))"

text \<open>\<open>stop\<close> (lines 53-60).\<close>

definition stop :: "TokenProgressDisplay \<Rightarrow> TokenCounter \<Rightarrow> display_step" where
  "stop self tc =
     (self\<lparr>watch_ids := [], progress := progress_stop (progress self)\<rparr>,
      fold unwatch (watch_ids self) tc,
      map Unwatch (watch_ids self))"

text \<open>\<open>pause\<close> (lines 62-68) and \<open>resume\<close> (lines 70-76).\<close>

definition pause :: "TokenProgressDisplay \<Rightarrow> TokenCounter \<Rightarrow> display_step" where
  "pause self tc =
     (if \<not> paused_flag self
      then (self\<lparr>paused_flag := True,
                 progress := progress_stop
                   ((progress self)\<lparr>tasks := map (\<lambda>t. t\<lparr>visible := False\<rparr>)
                                               (tasks (progress self))\<rparr>)\<rparr>,
            tc, [])
      else (self, tc, []))"

definition resume :: "TokenProgressDisplay \<Rightarrow> TokenCounter \<Rightarrow> display_step" where
  "resume self tc =
     (if paused_flag self
      then (self\<lparr>progress := progress_start
                   ((progress self)\<lparr>tasks := map (\<lambda>t. t\<lparr>visible := True\<rparr>)
                                               (tasks (progress self))\<rparr>),
                 paused_flag := False\<rparr>,
            tc, [])
      else (self, tc, []))"

text \<open>
  A scope body: code that runs between entry and exit. It may use the display and the
  engine, and it ends with a value (\<open>Inr\<close>) or by raising (\<open>Inl\<close>).
\<close>

type_synonym ('e, 'a) body =
  "TokenProgressDisplay \<Rightarrow> TokenCounter \<Rightarrow> ('e + 'a) \<times> display_step"

text \<open>
  \<open>paused\<close> (lines 78-85): \<open>pause\<close>, the body, and \<open>resume\<close> in the \<open>finally\<close> clause, after
  which the body's value or exception goes on to the caller.
\<close>

definition paused :: "('e, 'a) body \<Rightarrow> TokenProgressDisplay \<Rightarrow> TokenCounter \<Rightarrow> ('e + 'a) \<times> display_step" where
  "paused body self tc =
     (let (self1, tc1, calls1) = pause self tc;
          (outcome, self2, tc2, calls2) = body self1 tc1;
          (self3, tc3, calls3) = resume self2 tc2
      in (outcome, self3, tc3, calls1 @ calls2 @ calls3))"

text \<open>
  \<open>__enter__\<close> (lines 106-109) and \<open>__exit__\<close> (lines 111-113), and the \<open>with\<close> statement that
  uses them: \<open>__exit__\<close> runs whether the body returned or raised, and returns \<open>None\<close>, so an
  exception of the body is not swallowed.
\<close>

definition enter :: "TokenProgressDisplay \<Rightarrow> TokenCounter \<Rightarrow> display_step" where
  "enter self tc = start self tc"

definition exit :: "TokenProgressDisplay \<Rightarrow> TokenCounter \<Rightarrow> display_step" where
  "exit self tc = stop self tc"

definition with_display :: "('e, 'a) body \<Rightarrow> TokenProgressDisplay \<Rightarrow> TokenCounter \<Rightarrow> ('e + 'a) \<times> display_step" where
  "with_display body self tc =
     (let (self1, tc1, calls1) = enter self tc;
          (outcome, self2, tc2, calls2) = body self1 tc1;
          (self3, tc3, calls3) = exit self2 tc2
      in (outcome, self3, tc3, calls1 @ calls2 @ calls3))"

text \<open>
  \<open>_format_tokens\<close> (lines 87-89): the format spec \<open>,\<close> prints the decimal digits in groups
  of three from the right, after the sign of a negative number.
\<close>

fun decimal :: "nat \<Rightarrow> string" where
  "decimal n =
     (if n < 10 then [''0123456789'' ! n]
      else decimal (n div 10) @ [''0123456789'' ! (n mod 10)])"

fun group3 :: "string \<Rightarrow> string" where
  "group3 s =
     (if length s \<le> 3 then s
      else group3 (take (length s - 3) s) @ '','' @ drop (length s - 3) s)"

declare decimal.simps [simp del] group3.simps [simp del]

definition format_tokens :: "int \<Rightarrow> string" where
  "format_tokens n =
     (if n < 0 then ''-'' @ group3 (decimal (nat (- n))) else group3 (decimal (nat n)))"

text \<open>\<open>_format_cost\<close> (lines 91-93).\<close>

definition format_cost :: "'c pyfloat \<Rightarrow> 'c \<Rightarrow> string" where
  "format_cost fl c = ''$'' @ py_format_f fl 4 c"

text \<open>
  \<open>_on_token_update\<close> (lines 95-104). The coroutine has no \<open>await\<close>, so it runs to the end
  once it is scheduled; the result is the display after the update, or the error of
  \<open>Progress.update\<close>.
\<close>

definition on_token_update ::
  "'c engine \<Rightarrow> 'c pyfloat \<Rightarrow> TokenProgressDisplay \<Rightarrow> TokenCounter \<Rightarrow>
   TokenNode \<Rightarrow> TokenUsage \<Rightarrow> py_error + TokenProgressDisplay" where
  "on_token_update eng fl self tc node usage_arg =
     (let summary = get_summary eng tc
      in case progress_update_task (total_task_id self) ''[bold]TOTAL''
                (format_tokens (total_tokens (summary_usage summary)))
                (format_cost fl (summary_cost summary)) (progress self) of
           Inl e \<Rightarrow> Inl e
         | Inr p \<Rightarrow> Inr (self\<lparr>progress := p\<rparr>))"


section \<open>Example data\<close>

text \<open>
  A run \<open>R1\<close> (run id \<open>run-123\<close>) with the agent \<open>finder\<close> below it and three model calls
  below the agent, as in scenarios 1 and 2 of the specification.
\<close>

definition mk_usage :: "string \<Rightarrow> string \<Rightarrow> int \<Rightarrow> int \<Rightarrow> TokenUsage" where
  "mk_usage m p i out =
     \<lparr>input_tokens = i, output_tokens = out, total_tokens = i + out,
      model_name = Some m, model_info = Some \<lparr>provider = Some p\<rparr>\<rparr>"

definition no_usage :: TokenUsage where
  "no_usage = \<lparr>input_tokens = 0, output_tokens = 0, total_tokens = 0,
               model_name = None, model_info = None\<rparr>"

definition example_run :: TokenNode where
  "example_run =
     TokenNode ''R1'' [(''run_id'', ''run-123'')] no_usage
       [TokenNode ''finder'' [] no_usage
          [TokenNode ''llm1'' [] (mk_usage ''claude'' ''anthropic'' 100 50) [],
           TokenNode ''llm2'' [] (mk_usage ''gpt-4o'' ''openai'' 7 3) [],
           TokenNode ''llm3'' [] (mk_usage ''claude'' ''anthropic'' 20 10) []]]"

text \<open>
  An engine holding that run, which finds it by its run id only, and stand-ins for the float
  operations; costs are integers here.
\<close>

definition example_counter :: TokenCounter where
  "example_counter = \<lparr>root = Some example_run, watches = [], next_watch_id = 0\<rparr>"

definition example_engine :: "int engine" where
  "example_engine =
     \<lparr>get_workflow_node =
        (\<lambda>tc nm wid rid. if rid = Some ''run-123'' then root tc else None),
      calculate_node_cost = (\<lambda>tc n. 1050),
      calculate_cost = (\<lambda>tc m i out p. 3 * i + 15 * out),
      to_dict = (\<lambda>n. PDict [(''name'', PStr (name n))]),
      get_summary =
        (\<lambda>tc. \<lparr>summary_usage = (case root tc of None \<Rightarrow> no_usage | Some r \<Rightarrow> aggregate_usage r),
                 summary_cost = 1050\<rparr>)\<rparr>"

definition example_float :: "int pyfloat" where
  "example_float = \<lparr>py_round = (\<lambda>c n. c), py_format_f = (\<lambda>n c. decimal (nat c))\<rparr>"

text \<open>
  An engine that has no root yet, two scope bodies, and the display after \<open>start\<close> and after
  \<open>start\<close> and \<open>pause\<close> on the example engine.
\<close>

definition rootless_counter :: TokenCounter where
  "rootless_counter = \<lparr>root = None, watches = [], next_watch_id = 0\<rparr>"

definition returning_body :: "(string, unit) body" where
  "returning_body self tc = (Inr (), self, tc, [])"

definition raising_body :: "(string, unit) body" where
  "raising_body self tc = (Inl ''RuntimeError'', self, tc, [])"

definition started_display :: TokenProgressDisplay where
  "started_display = fst (start init example_counter)"

definition started_counter :: TokenCounter where
  "started_counter = fst (snd (start init example_counter))"

definition paused_display :: TokenProgressDisplay where
  "paused_display = fst (pause started_display started_counter)"

section \<open>The model breakdown is a sum per model\<close>

text \<open>The traversal is a left fold of \<open>add_usage\<close> over the usage records in visiting order.\<close>

lemma collect_model_usage_step:
  "collect_model_usage (TokenNode nm md u cs) acc = fold collect_model_usage cs (add_usage u acc)"
  by (simp add: add_usage_def)

lemma fold_collect_children:
  assumes "\<And>c acc. c \<in> set cs \<Longrightarrow> collect_model_usage c acc = fold add_usage (map usage (nodes c)) acc"
  shows "fold collect_model_usage cs acc = fold add_usage (map usage (concat (map nodes cs))) acc"
  using assms by (induction cs arbitrary: acc) simp_all

lemma collect_model_usage_fold:
  "collect_model_usage t acc = fold add_usage (map usage (nodes t)) acc"
proof (induction t arbitrary: acc)
  case (TokenNode nm md u cs)
  have "fold collect_model_usage cs a = fold add_usage (map usage (concat (map nodes cs))) a" for a
    by (rule fold_collect_children) (rule TokenNode.IH)
  then show ?case
    by (simp only: collect_model_usage_step nodes.simps list.map fold_simps TokenNode.sel)
qed

lemma map_of_add_usage:
  "map_of (add_usage u acc) k =
     (if fst k \<noteq> [] \<and> carries k u
      then Some (add_sums [u] (case map_of acc k of None \<Rightarrow> zero_entry k | Some e \<Rightarrow> e))
      else map_of acc k)"
  by (cases k)
     (auto simp: add_usage_def carries_def usage_provider_def zero_entry_def add_sums_def Let_def
                 map_of_map_entry update_conv' split: option.splits)

lemma add_sums_Cons: "add_sums us (add_sums [u] e) = add_sums (u # us) e"
  by (simp add: add_sums_def)

lemma map_of_fold_add_usage:
  "map_of (fold add_usage us acc) k =
     (if fst k = [] \<or> filter (carries k) us = [] then map_of acc k
      else Some (add_sums (filter (carries k) us)
                   (case map_of acc k of None \<Rightarrow> zero_entry k | Some e \<Rightarrow> e)))"
proof (induction us arbitrary: acc)
  case Nil
  then show ?case by simp
next
  case (Cons u us)
  show ?case
    by (simp add: Cons.IH map_of_add_usage add_sums_Cons)
qed

lemma distinct_add_usage: "distinct (map fst acc) \<Longrightarrow> distinct (map fst (add_usage u acc))"
  by (auto simp: add_usage_def Let_def distinct_update distinct_map_entry split: option.splits)

lemma distinct_fold_add_usage:
  "distinct (map fst acc) \<Longrightarrow> distinct (map fst (fold add_usage us acc))"
  by (induction us arbitrary: acc) (simp_all add: distinct_add_usage)

text \<open>
  Claim C1. The dict that \<open>collect_model_usage\<close> builds from the empty dict has one entry
  for each pair \<open>(model_name, provider)\<close> that some node of the subtree carries with a
  non-empty model name, and no other entry; the entry's \<open>input_tokens\<close>, \<open>output_tokens\<close> and
  \<open>total_tokens\<close> are the sums of these fields over exactly the nodes that carry the pair.
  For a node without a model over two leaves with different model names, the dict is the two
  entries of the leaves, each with the counts of its own leaf only.
\<close>

theorem collect_model_usage_per_model_sums:
  "distinct (map fst (collect_model_usage t [])) \<and>
   map_of (collect_model_usage t []) (m, p) =
     (let us = filter (carries (m, p)) (map usage (nodes t))
      in if m = [] \<or> us = [] then None
         else Some \<lparr>mu_model_name = m, mu_provider = p,
                    mu_input_tokens = sum_list (map input_tokens us),
                    mu_output_tokens = sum_list (map output_tokens us),
                    mu_total_tokens = sum_list (map total_tokens us)\<rparr>) \<and>
   (model_name u0 = None \<and> model_name u1 = Some m1 \<and> model_name u2 = Some m2 \<and>
    m1 \<noteq> [] \<and> m2 \<noteq> [] \<and> m1 \<noteq> m2 \<longrightarrow>
    collect_model_usage
      (TokenNode n0 md0 u0 [TokenNode n1 md1 u1 [], TokenNode n2 md2 u2 []]) [] =
      [((m1, usage_provider u1),
        \<lparr>mu_model_name = m1, mu_provider = usage_provider u1,
         mu_input_tokens = input_tokens u1, mu_output_tokens = output_tokens u1,
         mu_total_tokens = total_tokens u1\<rparr>),
       ((m2, usage_provider u2),
        \<lparr>mu_model_name = m2, mu_provider = usage_provider u2,
         mu_input_tokens = input_tokens u2, mu_output_tokens = output_tokens u2,
         mu_total_tokens = total_tokens u2\<rparr>)])"
proof (intro conjI impI)
  show "distinct (map fst (collect_model_usage t []))"
    by (simp add: collect_model_usage_fold distinct_fold_add_usage)
next
  show "map_of (collect_model_usage t []) (m, p) =
     (let us = filter (carries (m, p)) (map usage (nodes t))
      in if m = [] \<or> us = [] then None
         else Some \<lparr>mu_model_name = m, mu_provider = p,
                    mu_input_tokens = sum_list (map input_tokens us),
                    mu_output_tokens = sum_list (map output_tokens us),
                    mu_total_tokens = sum_list (map total_tokens us)\<rparr>)"
    by (simp add: collect_model_usage_fold map_of_fold_add_usage Let_def add_sums_def
                  zero_entry_def)
next
  assume "model_name u0 = None \<and> model_name u1 = Some m1 \<and> model_name u2 = Some m2 \<and>
    m1 \<noteq> [] \<and> m2 \<noteq> [] \<and> m1 \<noteq> m2"
  then show "collect_model_usage
      (TokenNode n0 md0 u0 [TokenNode n1 md1 u1 [], TokenNode n2 md2 u2 []]) [] =
      [((m1, usage_provider u1),
        \<lparr>mu_model_name = m1, mu_provider = usage_provider u1,
         mu_input_tokens = input_tokens u1, mu_output_tokens = output_tokens u1,
         mu_total_tokens = total_tokens u1\<rparr>),
       ((m2, usage_provider u2),
        \<lparr>mu_model_name = m2, mu_provider = usage_provider u2,
         mu_input_tokens = input_tokens u2, mu_output_tokens = output_tokens u2,
         mu_total_tokens = total_tokens u2\<rparr>)]"
    by (auto simp: usage_provider_def Let_def)
qed

text \<open>
  The run of scenario 2 with a third call: the two \<open>claude\<close> leaves are summed, and the
  two-leaf tree yields its two separate entries.
\<close>

theorem collect_model_usage_per_model_sums_witness:
  "map_of (collect_model_usage example_run []) (''claude'', Some ''anthropic'') =
     Some \<lparr>mu_model_name = ''claude'', mu_provider = Some ''anthropic'',
           mu_input_tokens = 120, mu_output_tokens = 60, mu_total_tokens = 180\<rparr> \<and>
   collect_model_usage
     (TokenNode ''R1'' [] no_usage
        [TokenNode ''llm1'' [] (mk_usage ''claude'' ''anthropic'' 100 50) [],
         TokenNode ''llm2'' [] (mk_usage ''gpt-4o'' ''openai'' 7 3) []]) [] =
     [((''claude'', Some ''anthropic''),
       \<lparr>mu_model_name = ''claude'', mu_provider = Some ''anthropic'',
        mu_input_tokens = 100, mu_output_tokens = 50, mu_total_tokens = 150\<rparr>),
      ((''gpt-4o'', Some ''openai''),
       \<lparr>mu_model_name = ''gpt-4o'', mu_provider = Some ''openai'',
        mu_input_tokens = 7, mu_output_tokens = 3, mu_total_tokens = 10\<rparr>)]"
  using collect_model_usage_per_model_sums
          [of example_run "''claude''" "Some ''anthropic''" no_usage
              "mk_usage ''claude'' ''anthropic'' 100 50" "''claude''"
              "mk_usage ''gpt-4o'' ''openai'' 7 3" "''gpt-4o''" "''R1''" "[]" "''llm1''" "[]"
              "''llm2''" "[]"]
  by (simp add: example_run_def no_usage_def mk_usage_def carries_def usage_provider_def Let_def)

lemma sum_total_tokens_ok:
  "\<forall>u \<in> set us. usage_ok u \<Longrightarrow>
   sum_list (map total_tokens us) = sum_list (map input_tokens us) + sum_list (map output_tokens us)"
  by (induction us) (simp_all add: usage_ok_def)

text \<open>
  Claim C2. If every node of the tree has \<open>total_tokens = input_tokens + output_tokens\<close> in
  its usage record, then so has every entry of the dict that \<open>collect_model_usage\<close> builds,
  although the traversal adds the three fields separately.
\<close>

theorem collect_model_usage_keeps_sum_invariant:
  assumes ok: "\<forall>n \<in> set (nodes t). usage_ok (usage n)"
    and entry: "(k, e) \<in> set (collect_model_usage t [])"
  shows "entry_ok e"
proof -
  let ?us = "filter (carries k) (map usage (nodes t))"
  have "distinct (map fst (collect_model_usage t []))"
    by (simp add: collect_model_usage_fold distinct_fold_add_usage)
  with entry have "map_of (collect_model_usage t []) k = Some e"
    by simp
  then have e: "e = add_sums ?us (zero_entry k)"
    by (simp add: collect_model_usage_fold map_of_fold_add_usage split: if_splits)
  have "\<forall>u \<in> set ?us. usage_ok u"
    using ok by auto
  then have "sum_list (map total_tokens ?us) =
             sum_list (map input_tokens ?us) + sum_list (map output_tokens ?us)"
    by (rule sum_total_tokens_ok)
  then show ?thesis
    by (simp add: e entry_ok_def add_sums_def zero_entry_def)
qed

text \<open>The example run satisfies the hypothesis, and its \<open>claude\<close> entry the conclusion.\<close>

theorem collect_model_usage_keeps_sum_invariant_witness:
  "list_all (\<lambda>n. usage_ok (usage n)) (nodes example_run) \<and>
   ((''claude'', Some ''anthropic''),
    \<lparr>mu_model_name = ''claude'', mu_provider = Some ''anthropic'',
     mu_input_tokens = 120, mu_output_tokens = 60, mu_total_tokens = 180\<rparr>)
     \<in> set (collect_model_usage example_run []) \<and>
   entry_ok \<lparr>mu_model_name = ''claude'', mu_provider = Some ''anthropic'',
             mu_input_tokens = 120, mu_output_tokens = 60, mu_total_tokens = 180\<rparr>"
proof -
  have ok: "\<forall>n \<in> set (nodes example_run). usage_ok (usage n)"
    by (simp add: example_run_def no_usage_def mk_usage_def usage_ok_def)
  have entry: "((''claude'', Some ''anthropic''),
    \<lparr>mu_model_name = ''claude'', mu_provider = Some ''anthropic'',
     mu_input_tokens = 120, mu_output_tokens = 60, mu_total_tokens = 180\<rparr>)
     \<in> set (collect_model_usage example_run [])"
    by (simp add: example_run_def no_usage_def mk_usage_def Let_def)
  from ok entry collect_model_usage_keeps_sum_invariant [OF ok entry] show ?thesis
    by (simp add: list_all_iff)
qed

section \<open>The query tool\<close>

lemma get_workflow_token_usage_found:
  "get_workflow_node eng tc workflow_name workflow_id run_id = Some n \<Longrightarrow>
   get_workflow_token_usage eng fl (Some tc) workflow_id run_id workflow_name =
     PDict [(''workflow'',
             PDict [(''name'', PStr (name n)),
                    (''run_id'', opt_val (map_of (metadata n) ''run_id'')),
                    (''workflow_id'', opt_val (map_of (metadata n) ''workflow_id''))]),
            (''usage'',
             PDict [(''input_tokens'', PInt (input_tokens (aggregate_usage n))),
                    (''output_tokens'', PInt (output_tokens (aggregate_usage n))),
                    (''total_tokens'', PInt (total_tokens (aggregate_usage n)))]),
            (''cost'', PFloat (py_round fl (calculate_node_cost eng tc n) 4)),
            (''model_breakdown'',
             PDict (fold (\<lambda>x. AList.update (display_key (fst (fst x)) (snd (fst x)))
                            (PDict [(''model_name'', PStr (mu_model_name (snd x))),
                                    (''provider'', opt_val (mu_provider (snd x))),
                                    (''input_tokens'', PInt (mu_input_tokens (snd x))),
                                    (''output_tokens'', PInt (mu_output_tokens (snd x))),
                                    (''total_tokens'', PInt (mu_total_tokens (snd x))),
                                    (''cost'',
                                     PFloat (py_round fl
                                       (calculate_cost eng tc (fst (fst x))
                                          (mu_input_tokens (snd x)) (mu_output_tokens (snd x))
                                          (snd (fst x))) 4))]))
                      (collect_model_usage n []) [])),
            (''usage_tree'', to_dict eng n)]"
  by (simp add: get_workflow_token_usage_def Let_def case_prod_unfold)

text \<open>
  Claim C3. When the engine is present and \<open>get_workflow_node\<close> finds no node, the tool
  returns the two-key dict whose \<open>error\<close> is \<open>Workflow not found\<close>: a value, not an exception.
\<close>

theorem workflow_not_found_is_data:
  assumes "get_workflow_node eng tc workflow_name workflow_id run_id = None"
  shows "get_workflow_token_usage eng fl (Some tc) workflow_id run_id workflow_name =
           PDict [(''error'', PStr ''Workflow not found''),
                  (''message'',
                   PStr (''Could not find workflow with run_id='' @ [CHR 0x27] @
                         py_str run_id @ [CHR 0x27]))]
         \<and> field ''error'' (get_workflow_token_usage eng fl (Some tc) workflow_id run_id workflow_name)
             = Some (PStr ''Workflow not found'')"
  using assms by (simp add: get_workflow_token_usage_def field_def)

text \<open>Scenario 5: the run id \<open>does-not-exist\<close> on the example engine.\<close>

theorem workflow_not_found_is_data_witness:
  "get_workflow_node example_engine example_counter None None (Some ''does-not-exist'') = None \<and>
   field ''error''
     (get_workflow_token_usage example_engine example_float (Some example_counter)
        None (Some ''does-not-exist'') None) = Some (PStr ''Workflow not found'')"
proof -
  have h: "get_workflow_node example_engine example_counter None None (Some ''does-not-exist'') = None"
    by (simp add: example_engine_def)
  from h workflow_not_found_is_data [OF h, of example_float] show ?thesis
    by (simp add: field_def)
qed

section \<open>The aggregate of a node\<close>

lemma fold_usage_add_fields:
  "input_tokens (fold (\<lambda>c t. usage_add t (f c)) cs a) =
     input_tokens a + sum_list (map (\<lambda>c. input_tokens (f c)) cs)"
  "output_tokens (fold (\<lambda>c t. usage_add t (f c)) cs a) =
     output_tokens a + sum_list (map (\<lambda>c. output_tokens (f c)) cs)"
  "total_tokens (fold (\<lambda>c t. usage_add t (f c)) cs a) =
     total_tokens a + sum_list (map (\<lambda>c. total_tokens (f c)) cs)"
  by (induction cs arbitrary: a) (simp_all add: usage_add_def)

lemma aggregate_usage_children:
  "input_tokens (aggregate_usage n) =
     input_tokens (usage n) + sum_list (map (\<lambda>c. input_tokens (aggregate_usage c)) (children n))"
  "output_tokens (aggregate_usage n) =
     output_tokens (usage n) + sum_list (map (\<lambda>c. output_tokens (aggregate_usage c)) (children n))"
  "total_tokens (aggregate_usage n) =
     total_tokens (usage n) + sum_list (map (\<lambda>c. total_tokens (aggregate_usage c)) (children n))"
  by (cases n, simp add: fold_usage_add_fields)+

lemma sum_list_concat_map:
  "sum_list (map g (concat (map h cs))) = sum_list (map (\<lambda>c. sum_list (map g (h c))) cs)"
  for g :: "'a \<Rightarrow> int"
  by (induction cs) simp_all

lemma aggregate_usage_total_nodes:
  "total_tokens (aggregate_usage n) = sum_list (map (\<lambda>x. total_tokens (usage x)) (nodes n))"
proof (induction n)
  case (TokenNode nm md u cs)
  have "sum_list (map (\<lambda>c. total_tokens (aggregate_usage c)) cs) =
        sum_list (map (\<lambda>c. sum_list (map (\<lambda>x. total_tokens (usage x)) (nodes c))) cs)"
    by (rule arg_cong [where f = sum_list], rule map_cong [OF refl]) (rule TokenNode.IH)
  then show ?case
    by (simp add: fold_usage_add_fields sum_list_concat_map)
qed

text \<open>
  Claim C4. The aggregated total of a node is its own total plus the aggregated totals of
  its children, hence the sum of the own totals of all nodes of its subtree; it is a function
  of the tree alone. The tool puts the three counts of this record, unchanged, under \<open>usage\<close>.
\<close>

theorem aggregate_usage_total_is_recursive_sum:
  "total_tokens (aggregate_usage n) =
     total_tokens (usage n) + sum_list (map (\<lambda>c. total_tokens (aggregate_usage c)) (children n)) \<and>
   total_tokens (aggregate_usage n) = sum_list (map (\<lambda>x. total_tokens (usage x)) (nodes n)) \<and>
   (get_workflow_node eng tc workflow_name workflow_id run_id = Some n \<longrightarrow>
    field ''usage'' (get_workflow_token_usage eng fl (Some tc) workflow_id run_id workflow_name) =
      Some (PDict [(''input_tokens'', PInt (input_tokens (aggregate_usage n))),
                   (''output_tokens'', PInt (output_tokens (aggregate_usage n))),
                   (''total_tokens'', PInt (total_tokens (aggregate_usage n)))]))"
proof (intro conjI impI)
  show "total_tokens (aggregate_usage n) =
     total_tokens (usage n) + sum_list (map (\<lambda>c. total_tokens (aggregate_usage c)) (children n))"
    by (rule aggregate_usage_children(3))
  show "total_tokens (aggregate_usage n) = sum_list (map (\<lambda>x. total_tokens (usage x)) (nodes n))"
    by (rule aggregate_usage_total_nodes)
next
  assume "get_workflow_node eng tc workflow_name workflow_id run_id = Some n"
  then show "field ''usage'' (get_workflow_token_usage eng fl (Some tc) workflow_id run_id workflow_name) =
      Some (PDict [(''input_tokens'', PInt (input_tokens (aggregate_usage n))),
                   (''output_tokens'', PInt (output_tokens (aggregate_usage n))),
                   (''total_tokens'', PInt (total_tokens (aggregate_usage n)))])"
    by (simp add: get_workflow_token_usage_found field_def)
qed

text \<open>The example run, found by its run id: 190 tokens in all.\<close>

theorem aggregate_usage_total_is_recursive_sum_witness:
  "get_workflow_node example_engine example_counter None None (Some ''run-123'') = Some example_run \<and>
   total_tokens (aggregate_usage example_run) = 190 \<and>
   field ''usage''
     (get_workflow_token_usage example_engine example_float (Some example_counter)
        None (Some ''run-123'') None) =
     Some (PDict [(''input_tokens'', PInt 127), (''output_tokens'', PInt 63),
                  (''total_tokens'', PInt 190)])"
proof -
  have h: "get_workflow_node example_engine example_counter None None (Some ''run-123'') = Some example_run"
    by (simp add: example_engine_def example_counter_def)
  have v: "input_tokens (aggregate_usage example_run) = 127"
    "output_tokens (aggregate_usage example_run) = 63"
    "total_tokens (aggregate_usage example_run) = 190"
    by (simp_all add: example_run_def no_usage_def mk_usage_def usage_add_def)
  from h v aggregate_usage_total_is_recursive_sum
         [of example_run example_engine example_counter None None "Some ''run-123''" example_float]
  show ?thesis by simp
qed

section \<open>Costs are rounded at the presentation boundary\<close>

lemma set_update_subset: "set (AList.update k v al) \<subseteq> insert (k, v) (set al)"
  by (induction al) auto

lemma fold_update_entries:
  "kv \<in> set (fold (\<lambda>x. AList.update (f x) (g x)) xs acc) \<Longrightarrow>
   kv \<in> set acc \<or> (\<exists>x \<in> set xs. kv = (f x, g x))"
proof (induction xs arbitrary: acc)
  case Nil
  then show ?case by simp
next
  case (Cons x xs)
  from Cons.IH [OF Cons.prems [simplified]]
  show ?case using set_update_subset [of "f x" "g x" acc] by auto
qed

lemma collect_model_usage_entry:
  assumes "((m, p), e) \<in> set (collect_model_usage n [])"
  shows "m \<noteq> [] \<and> filter (carries (m, p)) (map usage (nodes n)) \<noteq> [] \<and>
         e = add_sums (filter (carries (m, p)) (map usage (nodes n))) (zero_entry (m, p))"
proof -
  have "distinct (map fst (collect_model_usage n []))"
    by (simp add: collect_model_usage_fold distinct_fold_add_usage)
  with assms have "map_of (collect_model_usage n []) (m, p) = Some e"
    by simp
  then show ?thesis
    by (simp add: collect_model_usage_fold map_of_fold_add_usage split: if_splits)
qed

text \<open>
  Claim C8. A cost is rounded only where it is presented. In the tool's result, \<open>cost\<close> is
  \<open>round(_, 4)\<close> of the value \<open>_calculate_node_cost\<close> returned, and every entry of
  \<open>model_breakdown\<close> carries \<open>round(_, 4)\<close> of the value \<open>calculate_cost\<close> returned for the
  unrounded token sums of one model; the display prints the cost of the summary through the
  format \<open>.4f\<close> after a dollar sign. Nothing else is applied to a cost on the way: the float
  type is a type variable, so the model has no other operation on it.
\<close>

theorem cost_rounded_only_when_presented:
  assumes found: "get_workflow_node eng tc workflow_name workflow_id run_id = Some n"
  shows
    "field ''cost'' (get_workflow_token_usage eng fl (Some tc) workflow_id run_id workflow_name) =
       Some (PFloat (py_round fl (calculate_node_cost eng tc n) 4)) \<and>
     (\<exists>mb. field ''model_breakdown''
             (get_workflow_token_usage eng fl (Some tc) workflow_id run_id workflow_name) =
             Some (PDict mb) \<and>
           (\<forall>(d, v) \<in> set mb.
              \<exists>m p. let us = filter (carries (m, p)) (map usage (nodes n));
                        i = sum_list (map input_tokens us);
                        out = sum_list (map output_tokens us)
                    in m \<noteq> [] \<and> us \<noteq> [] \<and> d = display_key m p \<and>
                       v = PDict [(''model_name'', PStr m), (''provider'', opt_val p),
                                  (''input_tokens'', PInt i), (''output_tokens'', PInt out),
                                  (''total_tokens'', PInt (sum_list (map total_tokens us))),
                                  (''cost'',
                                   PFloat (py_round fl (calculate_cost eng tc m i out p) 4))])) \<and>
     format_cost fl c = ''$'' @ py_format_f fl 4 c \<and>
     on_token_update eng fl self tc node u =
       (case progress_update_task (total_task_id self) ''[bold]TOTAL''
               (format_tokens (total_tokens (summary_usage (get_summary eng tc))))
               (''$'' @ py_format_f fl 4 (summary_cost (get_summary eng tc))) (progress self) of
          Inl e \<Rightarrow> Inl e
        | Inr pr \<Rightarrow> Inr (self\<lparr>progress := pr\<rparr>))"
proof (intro conjI)
  let ?R = "get_workflow_token_usage eng fl (Some tc) workflow_id run_id workflow_name"
  let ?f = "\<lambda>x :: model_key \<times> model_entry. display_key (fst (fst x)) (snd (fst x))"
  let ?g = "\<lambda>x :: model_key \<times> model_entry.
              PDict [(''model_name'', PStr (mu_model_name (snd x))),
                     (''provider'', opt_val (mu_provider (snd x))),
                     (''input_tokens'', PInt (mu_input_tokens (snd x))),
                     (''output_tokens'', PInt (mu_output_tokens (snd x))),
                     (''total_tokens'', PInt (mu_total_tokens (snd x))),
                     (''cost'',
                      PFloat (py_round fl
                        (calculate_cost eng tc (fst (fst x))
                           (mu_input_tokens (snd x)) (mu_output_tokens (snd x))
                           (snd (fst x))) 4))]"
  let ?mb = "fold (\<lambda>x. AList.update (?f x) (?g x)) (collect_model_usage n []) []"
  show "field ''cost'' ?R = Some (PFloat (py_round fl (calculate_node_cost eng tc n) 4))"
    by (simp add: get_workflow_token_usage_found [OF found] field_def)
  have mb: "field ''model_breakdown'' ?R = Some (PDict ?mb)"
    by (simp add: get_workflow_token_usage_found [OF found] field_def)
  have entries: "\<exists>m p. let us = filter (carries (m, p)) (map usage (nodes n));
                        i = sum_list (map input_tokens us);
                        out = sum_list (map output_tokens us)
                    in m \<noteq> [] \<and> us \<noteq> [] \<and> d = display_key m p \<and>
                       v = PDict [(''model_name'', PStr m), (''provider'', opt_val p),
                                  (''input_tokens'', PInt i), (''output_tokens'', PInt out),
                                  (''total_tokens'', PInt (sum_list (map total_tokens us))),
                                  (''cost'',
                                   PFloat (py_round fl (calculate_cost eng tc m i out p) 4))]"
    if "(d, v) \<in> set ?mb" for d v
  proof -
    from fold_update_entries [OF that]
    obtain x where x: "x \<in> set (collect_model_usage n [])" and dv: "d = ?f x" "v = ?g x"
      by auto
    obtain m p e where xe: "x = ((m, p), e)"
      by (cases x) auto
    from collect_model_usage_entry [OF x [unfolded xe]]
    show ?thesis
      by (intro exI [of _ m] exI [of _ p])
         (simp add: dv xe Let_def add_sums_def zero_entry_def)
  qed
  show "\<exists>mb. field ''model_breakdown'' ?R = Some (PDict mb) \<and>
           (\<forall>(d, v) \<in> set mb.
              \<exists>m p. let us = filter (carries (m, p)) (map usage (nodes n));
                        i = sum_list (map input_tokens us);
                        out = sum_list (map output_tokens us)
                    in m \<noteq> [] \<and> us \<noteq> [] \<and> d = display_key m p \<and>
                       v = PDict [(''model_name'', PStr m), (''provider'', opt_val p),
                                  (''input_tokens'', PInt i), (''output_tokens'', PInt out),
                                  (''total_tokens'', PInt (sum_list (map total_tokens us))),
                                  (''cost'',
                                   PFloat (py_round fl (calculate_cost eng tc m i out p) 4))])"
    using mb entries by blast
  show "format_cost fl c = ''$'' @ py_format_f fl 4 c"
    by (simp add: format_cost_def)
  show "on_token_update eng fl self tc node u =
       (case progress_update_task (total_task_id self) ''[bold]TOTAL''
               (format_tokens (total_tokens (summary_usage (get_summary eng tc))))
               (''$'' @ py_format_f fl 4 (summary_cost (get_summary eng tc))) (progress self) of
          Inl e \<Rightarrow> Inl e
        | Inr pr \<Rightarrow> Inr (self\<lparr>progress := pr\<rparr>))"
    by (simp add: on_token_update_def format_cost_def Let_def)
qed

text \<open>The example run: the workflow cost and the two per-model costs of the result.\<close>

theorem cost_rounded_only_when_presented_witness:
  "get_workflow_node example_engine example_counter None None (Some ''run-123'') = Some example_run \<and>
   field ''cost''
     (get_workflow_token_usage example_engine example_float (Some example_counter)
        None (Some ''run-123'') None) = Some (PFloat 1050) \<and>
   field ''model_breakdown''
     (get_workflow_token_usage example_engine example_float (Some example_counter)
        None (Some ''run-123'') None) =
     Some (PDict [(''claude (anthropic)'',
                   PDict [(''model_name'', PStr ''claude''), (''provider'', PStr ''anthropic''),
                          (''input_tokens'', PInt 120), (''output_tokens'', PInt 60),
                          (''total_tokens'', PInt 180), (''cost'', PFloat 1260)]),
                  (''gpt-4o (openai)'',
                   PDict [(''model_name'', PStr ''gpt-4o''), (''provider'', PStr ''openai''),
                          (''input_tokens'', PInt 7), (''output_tokens'', PInt 3),
                          (''total_tokens'', PInt 10), (''cost'', PFloat 66)])])"
proof -
  have h: "get_workflow_node example_engine example_counter None None (Some ''run-123'') = Some example_run"
    by (simp add: example_engine_def example_counter_def)
  have mu: "collect_model_usage example_run [] =
     [((''claude'', Some ''anthropic''),
       \<lparr>mu_model_name = ''claude'', mu_provider = Some ''anthropic'',
        mu_input_tokens = 120, mu_output_tokens = 60, mu_total_tokens = 180\<rparr>),
      ((''gpt-4o'', Some ''openai''),
       \<lparr>mu_model_name = ''gpt-4o'', mu_provider = Some ''openai'',
        mu_input_tokens = 7, mu_output_tokens = 3, mu_total_tokens = 10\<rparr>)]"
    by (simp add: example_run_def no_usage_def mk_usage_def Let_def)
  have mb: "field ''model_breakdown''
     (get_workflow_token_usage example_engine example_float (Some example_counter)
        None (Some ''run-123'') None) =
     Some (PDict [(''claude (anthropic)'',
                   PDict [(''model_name'', PStr ''claude''), (''provider'', PStr ''anthropic''),
                          (''input_tokens'', PInt 120), (''output_tokens'', PInt 60),
                          (''total_tokens'', PInt 180), (''cost'', PFloat 1260)]),
                  (''gpt-4o (openai)'',
                   PDict [(''model_name'', PStr ''gpt-4o''), (''provider'', PStr ''openai''),
                          (''input_tokens'', PInt 7), (''output_tokens'', PInt 3),
                          (''total_tokens'', PInt 10), (''cost'', PFloat 66)])])"
    unfolding get_workflow_token_usage_found [OF h] mu
    by (simp add: field_def display_key_def opt_val_def example_engine_def example_float_def)
  from cost_rounded_only_when_presented [OF h, of example_float]
  have "field ''cost''
     (get_workflow_token_usage example_engine example_float (Some example_counter)
        None (Some ''run-123'') None) =
     Some (PFloat (py_round example_float (calculate_node_cost example_engine example_counter example_run) 4))"
    by blast
  then have "field ''cost''
     (get_workflow_token_usage example_engine example_float (Some example_counter)
        None (Some ''run-123'') None) = Some (PFloat 1050)"
    by (simp add: example_engine_def example_float_def)
  with h mb show ?thesis by simp
qed

section \<open>The display's subscription\<close>

lemma fold_unwatch:
  "fold unwatch ids tc = tc\<lparr>watches := filter (\<lambda>w. fst w \<notin> set ids) (watches tc)\<rparr>"
proof (induction ids arbitrary: tc)
  case Nil
  then show ?case by simp
next
  case (Cons i ids)
  have "fold unwatch (i # ids) tc = fold unwatch ids (unwatch i tc)"
    by simp
  also have "\<dots> = (unwatch i tc)\<lparr>watches := filter (\<lambda>w. fst w \<notin> set ids) (watches (unwatch i tc))\<rparr>"
    by (rule Cons.IH)
  also have "\<dots> = tc\<lparr>watches := filter (\<lambda>w. fst w \<notin> set (i # ids)) (watches tc)\<rparr>"
    by (simp add: unwatch_def conj_commute)
  finally show ?case .
qed

lemma stop_stop:
  "stop (self\<lparr>watch_ids := [], progress := progress_stop (progress self)\<rparr>) tc' =
     (self\<lparr>watch_ids := [], progress := progress_stop (progress self)\<rparr>, tc', [])"
  by (simp add: stop_def progress_stop_def)


lemma stop_unfold:
  "stop self tc =
     (self\<lparr>watch_ids := [], progress := progress_stop (progress self)\<rparr>,
      tc\<lparr>watches := filter (\<lambda>w. fst w \<notin> set (watch_ids self)) (watches tc)\<rparr>,
      map Unwatch (watch_ids self))"
  by (simp add: stop_def fold_unwatch)

text \<open>
  Claim C6. \<open>stop\<close> is idempotent: a second \<open>stop\<close> right after the first leaves the display
  and the engine as the first left them and makes no call on the engine, the id list being
  empty by then. Issuing the first call's \<open>unwatch\<close> calls once more would not change the
  engine either: the ids are unknown to it by then.
\<close>

theorem stop_idempotent:
  "stop (fst (stop self tc)) (fst (snd (stop self tc))) =
     (fst (stop self tc), fst (snd (stop self tc)), []) \<and>
   fold unwatch (watch_ids self) (fst (snd (stop self tc))) = fst (snd (stop self tc))"
proof
  show "stop (fst (stop self tc)) (fst (snd (stop self tc))) =
     (fst (stop self tc), fst (snd (stop self tc)), [])"
    by (simp add: stop_unfold progress_stop_def)
  show "fold unwatch (watch_ids self) (fst (snd (stop self tc))) = fst (snd (stop self tc))"
    by (simp add: stop_unfold fold_unwatch)
qed


lemma start_unfold:
  "start self tc =
     (let p = (progress self)\<lparr>started := True,
                 tasks := tasks (progress self) @
                   [\<lparr>task_id = task_index (progress self), visible = True,
                     node_info = ''[bold]TOTAL'', tokens = ''0'', cost = ''$0.0000''\<rparr>],
                 task_index := Suc (task_index (progress self))\<rparr>;
          self1 = self\<lparr>progress := p, total_task_id := Some (task_index (progress self))\<rparr>
      in case root tc of
           None \<Rightarrow> (self1, tc, [])
         | Some r \<Rightarrow>
             (self1\<lparr>watch_ids := watch_ids self @ [next_watch_id tc]\<rparr>,
              tc\<lparr>watches := watches tc @
                     [(next_watch_id tc,
                       \<lparr>w_callback = OnTokenUpdate, w_node = r, w_threshold = 1,
                        w_throttle_ms = 100\<rparr>)],
                 next_watch_id := Suc (next_watch_id tc)\<rparr>,
              [Watch OnTokenUpdate r 1 100]))"
  by (simp add: start_def add_task_def progress_start_def watch_def Let_def split: option.splits)

lemma started_display_eq:
  "started_display =
     \<lparr>watch_ids = [0],
      progress = \<lparr>started = True,
                  tasks = [\<lparr>task_id = 0, visible = True, node_info = ''[bold]TOTAL'',
                            tokens = ''0'', cost = ''$0.0000''\<rparr>],
                  task_index = Suc 0\<rparr>,
      paused_flag = False, total_task_id = Some 0\<rparr>"
  by (simp add: started_display_def start_unfold init_def example_counter_def Let_def)

lemma started_counter_eq:
  "started_counter =
     \<lparr>root = Some example_run,
      watches = [(0, \<lparr>w_callback = OnTokenUpdate, w_node = example_run, w_threshold = 1,
                      w_throttle_ms = 100\<rparr>)],
      next_watch_id = Suc 0\<rparr>"
  by (simp add: started_counter_def start_unfold init_def example_counter_def Let_def)

lemma paused_display_eq:
  "paused_display =
     \<lparr>watch_ids = [0],
      progress = \<lparr>started = False,
                  tasks = [\<lparr>task_id = 0, visible = False, node_info = ''[bold]TOTAL'',
                            tokens = ''0'', cost = ''$0.0000''\<rparr>],
                  task_index = Suc 0\<rparr>,
      paused_flag = True, total_task_id = Some 0\<rparr>"
  by (simp add: paused_display_def started_display_eq pause_def progress_stop_def)

text \<open>
  The display started on the example engine: the first \<open>stop\<close> cancels subscription 0, the
  second does nothing.
\<close>

theorem stop_idempotent_witness:
  "stop started_display started_counter =
     (started_display\<lparr>watch_ids := [], progress := progress_stop (progress started_display)\<rparr>,
      started_counter\<lparr>watches := []\<rparr>, [Unwatch 0]) \<and>
   stop (started_display\<lparr>watch_ids := [], progress := progress_stop (progress started_display)\<rparr>)
        (started_counter\<lparr>watches := []\<rparr>) =
     (started_display\<lparr>watch_ids := [], progress := progress_stop (progress started_display)\<rparr>,
      started_counter\<lparr>watches := []\<rparr>, [])"
proof -
  have s: "stop started_display started_counter =
     (started_display\<lparr>watch_ids := [], progress := progress_stop (progress started_display)\<rparr>,
      started_counter\<lparr>watches := []\<rparr>, [Unwatch 0])"
    by (simp add: stop_unfold started_display_eq started_counter_eq)
  from stop_idempotent [of started_display started_counter] show ?thesis
    by (simp add: s)
qed

text \<open>
  Claim C10. On an engine without a root, \<open>start\<close> still starts the progress widget and adds
  the \<open>TOTAL\<close> task with the totals \<open>0\<close> and \<open>$0.0000\<close>, but it calls neither \<open>watch\<close> nor
  anything else on the engine: the id list and the registry are as before, so the engine has
  no subscription through which the callback could fire. A \<open>stop\<close> after such a \<open>start\<close> of a
  display without ids makes no call and leaves the engine unchanged.
\<close>

theorem start_without_root:
  assumes "root tc = None"
  shows "start self tc =
           (self\<lparr>progress := (progress self)\<lparr>started := True,
                     tasks := tasks (progress self) @
                       [\<lparr>task_id = task_index (progress self), visible = True,
                         node_info = ''[bold]TOTAL'', tokens = ''0'', cost = ''$0.0000''\<rparr>],
                     task_index := Suc (task_index (progress self))\<rparr>,
                 total_task_id := Some (task_index (progress self))\<rparr>,
            tc, []) \<and>
         watch_ids (fst (start self tc)) = watch_ids self \<and>
         watches (fst (snd (start self tc))) = watches tc \<and>
         (watch_ids self = [] \<longrightarrow>
            snd (stop (fst (start self tc)) (fst (snd (start self tc)))) = (tc, []))"
  using assms by (simp add: start_unfold Let_def stop_unfold)

text \<open>
  A new display on the engine without a root.
\<close>

theorem start_without_root_witness:
  "root rootless_counter = None \<and>
   start init rootless_counter =
     (\<lparr>watch_ids = [],
       progress = \<lparr>started = True,
                   tasks = [\<lparr>task_id = 0, visible = True, node_info = ''[bold]TOTAL'',
                             tokens = ''0'', cost = ''$0.0000''\<rparr>],
                   task_index = Suc 0\<rparr>,
       paused_flag = False, total_task_id = Some 0\<rparr>,
      rootless_counter, []) \<and>
   snd (stop (fst (start init rootless_counter)) (fst (snd (start init rootless_counter)))) =
     (rootless_counter, [])"
proof -
  have h: "root rootless_counter = None"
    by (simp add: rootless_counter_def)
  from h start_without_root [OF h, of init] show ?thesis
    by (simp add: init_def stop_unfold)
qed

text \<open>The format of a token count, on a few numbers.\<close>

lemma format_tokens_examples:
  "format_tokens 0 = ''0''"
  "format_tokens 999 = ''999''"
  "format_tokens 1000 = ''1,000''"
  "format_tokens 1234567 = ''1,234,567''"
  "format_tokens (- 1234) = ''-1,234''"
  by (simp_all add: format_tokens_def decimal.simps group3.simps)

lemma summary_example:
  "get_summary example_engine started_counter =
     \<lparr>summary_usage = \<lparr>input_tokens = 127, output_tokens = 63, total_tokens = 190,
                        model_name = None, model_info = None\<rparr>,
      summary_cost = 1050\<rparr>"
  by (simp add: example_engine_def started_counter_eq example_run_def no_usage_def mk_usage_def
                usage_add_def)

lemma rendered_example:
  "on_token_update example_engine example_float started_display started_counter
     (TokenNode ''llm1'' [] (mk_usage ''claude'' ''anthropic'' 100 50) [])
     (mk_usage ''claude'' ''anthropic'' 100 50) =
   Inr (started_display\<lparr>progress :=
          \<lparr>started = True,
           tasks = [\<lparr>task_id = 0, visible = True, node_info = ''[bold]TOTAL'',
                     tokens = ''190'', cost = ''$1050''\<rparr>],
           task_index = Suc 0\<rparr>\<rparr>)"
  by (simp add: on_token_update_def summary_example Let_def started_display_eq
                progress_update_task_def format_tokens_def format_cost_def example_float_def
                decimal.simps group3.simps)

text \<open>
  Claim C9. Two runs of the callback on the same display, at engine states with the same
  summary, give the same result whatever node and usage they are passed: the update depends
  on the summary read at that moment only.
\<close>

theorem on_token_update_reads_summary_only:
  assumes "get_summary eng tc1 = get_summary eng tc2"
  shows "on_token_update eng fl self tc1 node1 usage1 =
         on_token_update eng fl self tc2 node2 usage2"
  using assms by (simp add: on_token_update_def)

text \<open>
  The example engine before and after the display subscribed: the summary is the same, the
  payloads differ, and both runs render the 190 tokens of the summary.
\<close>

theorem on_token_update_reads_summary_only_witness:
  "get_summary example_engine example_counter = get_summary example_engine started_counter \<and>
   on_token_update example_engine example_float started_display example_counter
     example_run no_usage =
   on_token_update example_engine example_float started_display started_counter
     (TokenNode ''llm1'' [] (mk_usage ''claude'' ''anthropic'' 100 50) [])
     (mk_usage ''claude'' ''anthropic'' 100 50) \<and>
   on_token_update example_engine example_float started_display example_counter
     example_run no_usage =
   Inr (started_display\<lparr>progress :=
          \<lparr>started = True,
           tasks = [\<lparr>task_id = 0, visible = True, node_info = ''[bold]TOTAL'',
                     tokens = ''190'', cost = ''$1050''\<rparr>],
           task_index = Suc 0\<rparr>\<rparr>)"
proof -
  have h: "get_summary example_engine example_counter = get_summary example_engine started_counter"
    by (simp add: example_engine_def example_counter_def started_counter_eq)
  have same: "on_token_update example_engine example_float started_display example_counter
     example_run no_usage =
   on_token_update example_engine example_float started_display started_counter
     (TokenNode ''llm1'' [] (mk_usage ''claude'' ''anthropic'' 100 50) [])
     (mk_usage ''claude'' ''anthropic'' 100 50)"
    by (rule on_token_update_reads_summary_only [OF h])
  from same rendered_example
  have "on_token_update example_engine example_float started_display example_counter
     example_run no_usage =
   Inr (started_display\<lparr>progress :=
          \<lparr>started = True,
           tasks = [\<lparr>task_id = 0, visible = True, node_info = ''[bold]TOTAL'',
                     tokens = ''190'', cost = ''$1050''\<rparr>],
           task_index = Suc 0\<rparr>\<rparr>)"
    by (rule trans)
  with h same show ?thesis
    by blast
qed


text \<open>
  Claim C5, as amended. Entering the scope is \<open>start\<close>; leaving it is \<open>stop\<close>, whether the body
  returned or raised, and the body's outcome goes on to the caller. With a root, \<open>start\<close>
  makes exactly one call, \<open>watch\<close> on the root with threshold 1 and throttle 100 ms, and
  appends the id it gets to the list; without a root it makes no call and records no id.
  \<open>stop\<close> passes every id of the list to \<open>unwatch\<close> and empties the list: when the body kept
  the ids of \<open>start\<close> in the list, each of them has been passed to \<open>unwatch\<close>, and no id of
  the list is left in the registry.
\<close>

theorem with_display_starts_and_stops:
  assumes entered: "enter self tc = (self1, tc1, calls1)"
    and ran: "body self1 tc1 = (outcome, self2, tc2, calls2)"
  shows "enter self tc = start self tc \<and>
         with_display body self tc =
           (outcome,
            self2\<lparr>watch_ids := [], progress := progress_stop (progress self2)\<rparr>,
            fold unwatch (watch_ids self2) tc2,
            calls1 @ calls2 @ map Unwatch (watch_ids self2)) \<and>
         (\<forall>r. root tc = Some r \<longrightarrow>
              calls1 = [Watch OnTokenUpdate r 1 100] \<and>
              watch_ids self1 = watch_ids self @ [next_watch_id tc] \<and>
              watches tc1 = watches tc @
                [(next_watch_id tc,
                  \<lparr>w_callback = OnTokenUpdate, w_node = r, w_threshold = 1,
                   w_throttle_ms = 100\<rparr>)]) \<and>
         (root tc = None \<longrightarrow> calls1 = [] \<and> watch_ids self1 = watch_ids self \<and> tc1 = tc) \<and>
         (set (watch_ids self1) \<subseteq> set (watch_ids self2) \<longrightarrow>
            (\<forall>i \<in> set (watch_ids self1). Unwatch i \<in> set (map Unwatch (watch_ids self2)))) \<and>
         (\<forall>w \<in> set (watches (fold unwatch (watch_ids self2) tc2)). fst w \<notin> set (watch_ids self2))"
proof (intro conjI)
  show "enter self tc = start self tc"
    by (simp add: enter_def)
  show "with_display body self tc =
           (outcome,
            self2\<lparr>watch_ids := [], progress := progress_stop (progress self2)\<rparr>,
            fold unwatch (watch_ids self2) tc2,
            calls1 @ calls2 @ map Unwatch (watch_ids self2))"
    by (simp add: with_display_def entered ran exit_def stop_def)
  show "\<forall>r. root tc = Some r \<longrightarrow>
              calls1 = [Watch OnTokenUpdate r 1 100] \<and>
              watch_ids self1 = watch_ids self @ [next_watch_id tc] \<and>
              watches tc1 = watches tc @
                [(next_watch_id tc,
                  \<lparr>w_callback = OnTokenUpdate, w_node = r, w_threshold = 1,
                   w_throttle_ms = 100\<rparr>)]"
    using entered by (auto simp: enter_def start_unfold Let_def)
  show "root tc = None \<longrightarrow> calls1 = [] \<and> watch_ids self1 = watch_ids self \<and> tc1 = tc"
    using entered by (auto simp: enter_def start_unfold Let_def)
  show "set (watch_ids self1) \<subseteq> set (watch_ids self2) \<longrightarrow>
            (\<forall>i \<in> set (watch_ids self1). Unwatch i \<in> set (map Unwatch (watch_ids self2)))"
    by auto
  show "\<forall>w \<in> set (watches (fold unwatch (watch_ids self2) tc2)). fst w \<notin> set (watch_ids self2)"
    by (simp add: fold_unwatch)
qed

text \<open>
  A body that raises, on the example engine: the exception comes out, and the subscription
  of \<open>start\<close> has been cancelled. A body that returns, on the engine without a root: no call
  is made on the engine at all.
\<close>

theorem with_display_starts_and_stops_witness:
  "enter init example_counter = (started_display, started_counter, [Watch OnTokenUpdate example_run 1 100]) \<and>
   raising_body started_display started_counter = (Inl ''RuntimeError'', started_display, started_counter, []) \<and>
   with_display raising_body init example_counter =
     (Inl ''RuntimeError'',
      started_display\<lparr>watch_ids := [], progress := progress_stop (progress started_display)\<rparr>,
      started_counter\<lparr>watches := []\<rparr>,
      [Watch OnTokenUpdate example_run 1 100, Unwatch 0]) \<and>
   with_display returning_body init rootless_counter =
     (Inr (),
      \<lparr>watch_ids = [],
       progress = \<lparr>started = False,
                   tasks = [\<lparr>task_id = 0, visible = True, node_info = ''[bold]TOTAL'',
                             tokens = ''0'', cost = ''$0.0000''\<rparr>],
                   task_index = Suc 0\<rparr>,
       paused_flag = False, total_task_id = Some 0\<rparr>,
      rootless_counter, [])"
proof -
  let ?d = "\<lparr>watch_ids = [],
             progress = \<lparr>started = True,
                         tasks = [\<lparr>task_id = 0, visible = True, node_info = ''[bold]TOTAL'',
                                   tokens = ''0'', cost = ''$0.0000''\<rparr>],
                         task_index = Suc 0\<rparr>,
             paused_flag = False, total_task_id = Some 0\<rparr>"
  have e0: "enter init rootless_counter = (?d, rootless_counter, [])"
    by (simp add: enter_def start_unfold Let_def rootless_counter_def init_def)
  have b0: "returning_body ?d rootless_counter = (Inr (), ?d, rootless_counter, [])"
    by (simp add: returning_body_def)
  from with_display_starts_and_stops [where body = returning_body, OF e0 b0]
  have "with_display returning_body init rootless_counter =
          (Inr (), ?d\<lparr>watch_ids := [], progress := progress_stop (progress ?d)\<rparr>,
           fold unwatch (watch_ids ?d) rootless_counter,
           [] @ [] @ map Unwatch (watch_ids ?d))"
    by blast
  then have rootless: "with_display returning_body init rootless_counter =
     (Inr (),
      \<lparr>watch_ids = [],
       progress = \<lparr>started = False,
                   tasks = [\<lparr>task_id = 0, visible = True, node_info = ''[bold]TOTAL'',
                             tokens = ''0'', cost = ''$0.0000''\<rparr>],
                   task_index = Suc 0\<rparr>,
       paused_flag = False, total_task_id = Some 0\<rparr>,
      rootless_counter, [])"
    by (simp add: progress_stop_def)
  have e: "enter init example_counter =
             (started_display, started_counter, [Watch OnTokenUpdate example_run 1 100])"
    by (simp add: enter_def started_display_def started_counter_def start_unfold Let_def
                  example_counter_def)
  have b: "raising_body started_display started_counter =
             (Inl ''RuntimeError'', started_display, started_counter, [])"
    by (simp add: raising_body_def)
  have u: "unwatch 0 started_counter = started_counter\<lparr>watches := []\<rparr>"
    by (simp add: unwatch_def started_display_eq started_counter_eq)
  have w: "watch_ids started_display = [0]"
    by (simp add: started_display_eq)
  from with_display_starts_and_stops [where body = raising_body, OF e b]
  have "with_display raising_body init example_counter =
           (Inl ''RuntimeError'',
            started_display\<lparr>watch_ids := [], progress := progress_stop (progress started_display)\<rparr>,
            fold unwatch (watch_ids started_display) started_counter,
            [Watch OnTokenUpdate example_run 1 100] @ [] @ map Unwatch (watch_ids started_display))"
    by blast
  with e b rootless show ?thesis
    by (simp add: u w)
qed

text \<open>
  Claim C5 as stated fails on an engine without a root: entering the scope registers no
  watch and records no id.
\<close>

theorem start_registers_one_watch_counterexample:
  "\<not> length (filter is_watch (snd (snd (enter init rootless_counter)))) = 1 \<and>
   watch_ids (fst (enter init rootless_counter)) = [] \<and>
   watches (fst (snd (enter init rootless_counter))) = []"
  by (simp add: enter_def start_unfold Let_def rootless_counter_def init_def)

lemma visible_round_trip:
  "list_all visible ts \<Longrightarrow> map ((\<lambda>t. t\<lparr>visible := True\<rparr>) \<circ> (\<lambda>t. t\<lparr>visible := False\<rparr>)) ts = ts"
  by (induction ts) simp_all

lemma resume_pause:
  assumes "\<not> paused_flag self" "started (progress self)" "list_all visible (tasks (progress self))"
  shows "fst (resume (fst (pause self tc)) tc') = self"
  using assms
  by (simp add: pause_def resume_def progress_stop_def progress_start_def visible_round_trip)

text \<open>
  Claim C7, as amended. \<open>pause\<close> and \<open>resume\<close> make no call on the engine, leave it unchanged
  and keep the id list. The \<open>paused\<close> scope runs \<open>resume\<close> after the body whatever its outcome,
  and the display is not paused afterwards. It is the display of before the scope when that
  one was running, not paused, with every task visible, and the body left it alone.
\<close>

theorem pause_resume_keep_subscription:
  "pause self tc = (fst (pause self tc), tc, []) \<and>
   watch_ids (fst (pause self tc)) = watch_ids self \<and>
   resume self tc = (fst (resume self tc), tc, []) \<and>
   watch_ids (fst (resume self tc)) = watch_ids self \<and>
   paused body self tc =
     (case body (fst (pause self tc)) tc of
        (outcome, self2, tc2, calls2) \<Rightarrow> (outcome, fst (resume self2 tc2), tc2, calls2)) \<and>
   \<not> paused_flag (fst (snd (paused body self tc))) \<and>
   (\<not> paused_flag self \<and> started (progress self) \<and> list_all visible (tasks (progress self)) \<and>
    fst (snd (body (fst (pause self tc)) tc)) = fst (pause self tc) \<longrightarrow>
    fst (snd (paused body self tc)) = self)"
proof (intro conjI impI)
  show "pause self tc = (fst (pause self tc), tc, [])"
    by (simp add: pause_def)
  show "watch_ids (fst (pause self tc)) = watch_ids self"
    by (simp add: pause_def)
  show "resume self tc = (fst (resume self tc), tc, [])"
    by (simp add: resume_def)
  show "watch_ids (fst (resume self tc)) = watch_ids self"
    by (simp add: resume_def)
  show p: "paused body self tc =
     (case body (fst (pause self tc)) tc of
        (outcome, self2, tc2, calls2) \<Rightarrow> (outcome, fst (resume self2 tc2), tc2, calls2))"
    by (simp add: paused_def pause_def resume_def split: prod.splits)
  show "\<not> paused_flag (fst (snd (paused body self tc)))"
    by (simp add: p resume_def split: prod.splits)
  assume a: "\<not> paused_flag self \<and> started (progress self) \<and>
    list_all visible (tasks (progress self)) \<and>
    fst (snd (body (fst (pause self tc)) tc)) = fst (pause self tc)"
  obtain outcome self2 tc2 calls2 where b: "body (fst (pause self tc)) tc = (outcome, self2, tc2, calls2)"
    by (cases "body (fst (pause self tc)) tc") auto
  with a have "self2 = fst (pause self tc)"
    by simp
  then show "fst (snd (paused body self tc)) = self"
    using a by (simp add: p b resume_pause)
qed

text \<open>
  The started display, paused around a body that raises.
\<close>

theorem pause_resume_keep_subscription_witness:
  "pause started_display started_counter = (paused_display, started_counter, []) \<and>
   watch_ids paused_display = [0] \<and>
   paused raising_body started_display started_counter =
     (Inl ''RuntimeError'', started_display, started_counter, [])"
proof -
  have visible: "\<not> paused_flag started_display \<and> started (progress started_display) \<and>
     list_all visible (tasks (progress started_display)) \<and>
     fst (snd (raising_body (fst (pause started_display started_counter)) started_counter)) =
       fst (pause started_display started_counter)"
    by (simp add: started_display_eq raising_body_def)
  note t = pause_resume_keep_subscription [of started_display started_counter raising_body]
  from t visible have restored: "fst (snd (paused raising_body started_display started_counter)) = started_display"
    by blast
  from t have "paused raising_body started_display started_counter =
     (case raising_body (fst (pause started_display started_counter)) started_counter of
        (outcome, self2, tc2, calls2) \<Rightarrow> (outcome, fst (resume self2 tc2), tc2, calls2))"
    by blast
  then have shape: "paused raising_body started_display started_counter =
     (Inl ''RuntimeError'', fst (snd (paused raising_body started_display started_counter)),
      started_counter, [])"
    by (simp add: raising_body_def)
  from t have "pause started_display started_counter =
                 (fst (pause started_display started_counter), started_counter, [])"
    by blast
  then have p: "pause started_display started_counter = (paused_display, started_counter, [])"
    by (simp add: paused_display_def)
  have w: "watch_ids paused_display = [0]"
    by (simp add: paused_display_eq)
  from shape restored p w show ?thesis
    by simp
qed

text \<open>
  Claim C7 as stated fails when the scope is entered on a display that is paused already
  (here: started, then paused): the task was hidden before the scope and is visible after it.
\<close>

theorem paused_restores_visibility_counterexample:
  "map visible (tasks (progress paused_display)) = [False] \<and>
   paused_flag paused_display \<and>
   map visible (tasks (progress
     (fst (snd (paused returning_body paused_display started_counter))))) = [True] \<and>
   \<not> paused_flag (fst (snd (paused returning_body paused_display started_counter)))"
  by (simp add: paused_display_eq paused_def pause_def resume_def returning_body_def
                progress_start_def)

end
